theory Spec2Isabelle
  imports Main
begin

text \<open>
  A shallow embedding of gojade, a compiler from an indentation-based template language
  to HTML: the parse nodes and their rendering, the copying of nodes, and the scanner
  that turns the template text into items. Pure functions of the source are HOL
  functions; methods that update the lexer take it and return it; a panic is a value;
  and a loop that may run forever is a partial function into \<open>option\<close>, with \<open>None\<close>
  for the run that never returns.
\<close>

section \<open>Parse nodes (jade/node.go)\<close>

text \<open>
  Go strings and byte slices are sequences of bytes; they are modelled as \<open>string\<close>
  (a list of 8-bit characters). The package-level map \<open>doctypes\<close> is a finite map given
  by its association list, in the order of the source.
\<close>

definition doctypes :: "string \<rightharpoonup> string" where
  \<open>doctypes = map_of
    [(''5'', ''<!DOCTYPE html>''),
     (''default'', ''<!DOCTYPE html>''),
     (''xml'', ''<?xml version="1.0" encoding="utf-8" ?>''),
     (''transitional'', ''<!DOCTYPE html PUBLIC "-//W3C//DTD XHTML 1.0 Transitional//EN" "http://www.w3.org/TR/xhtml1/DTD/xhtml1-transitional.dtd">''),
     (''strict'', ''<!DOCTYPE html PUBLIC "-//W3C//DTD XHTML 1.0 Strict//EN" "http://www.w3.org/TR/xhtml1/DTD/xhtml1-strict.dtd">''),
     (''frameset'', ''<!DOCTYPE html PUBLIC "-//W3C//DTD XHTML 1.0 Frameset//EN" "http://www.w3.org/TR/xhtml1/DTD/xhtml1-frameset.dtd">''),
     (''1.1'', ''<!DOCTYPE html PUBLIC "-//W3C//DTD XHTML 1.1//EN" "http://www.w3.org/TR/xhtml11/DTD/xhtml11.dtd">''),
     (''basic'', ''<!DOCTYPE html PUBLIC "-//W3C//DTD XHTML Basic 1.1//EN" "http://www.w3.org/TR/xhtml-basic/xhtml-basic11.dtd">''),
     (''mobile'', ''<!DOCTYPE html PUBLIC "-//WAPFORUM//DTD XHTML Mobile 1.2//EN" "http://www.openmobilealliance.org/tech/DTD/xhtml-mobile12.dtd">'')]\<close>

text \<open>Indexing a Go map with a missing key yields the zero value, the empty string.\<close>

definition doctypes_index :: "string \<Rightarrow> string" where
  "doctypes_index k = (case doctypes k of None \<Rightarrow> [] | Some v \<Rightarrow> v)"

datatype NodeType = NodeText | NodeTag | NodeAttr | NodeDoctype | NodeId | NodeClass | NodeList

text \<open>
  The seven structs implementing the interface \<open>Node\<close>. Each constructor of the source
  (\<open>newList\<close>, \<open>newTag\<close>, \<open>newText\<close>, ...) and each \<open>Copy\<close> sets the embedded
  \<open>NodeType\<close> field to the constant of its struct, so the kind is a function of the
  variant.
\<close>

datatype Node =
    ListNode "Node list"
  | TagNode string "Node list"
  | TextNode string
  | DoctypeNode string
  | AttrNode string
  | IdNode string
  | ClassNode string

fun Type :: "Node \<Rightarrow> NodeType" where
  "Type (ListNode ns) = NodeList"
| "Type (TagNode tag ns) = NodeTag"
| "Type (TextNode t) = NodeText"
| "Type (DoctypeNode d) = NodeDoctype"
| "Type (AttrNode a) = NodeAttr"
| "Type (IdNode i) = NodeId"
| "Type (ClassNode c) = NodeClass"

text \<open>
  \<open>String\<close>: a list prints its children into a buffer, in order; every other node
  prints its byte payload (a tag prints its name only).
\<close>

fun String :: "Node \<Rightarrow> string" where
  "String (ListNode ns) = foldl (\<lambda>b n. b @ String n) [] ns"
| "String (TagNode tag ns) = tag"
| "String (TextNode t) = t"
| "String (DoctypeNode d) = d"
| "String (AttrNode a) = a"
| "String (IdNode i) = i"
| "String (ClassNode c) = c"

text \<open>
  \<open>HTMLString\<close>. The three \<open>range\<close> loops over the children are recursive functions
  on the list of children that thread the buffers of the source: \<open>ListNode_range\<close> is
  the loop of a list, \<open>TagNode_range1\<close> the first loop of a tag, over the buffer \<open>b\<close>,
  the buffer \<open>classes\<close> and the counter \<open>n_classes\<close>, with the three \<open>if\<close> statements
  of its body in the order of the source, and \<open>TagNode_range2\<close> the second loop of a tag,
  which appends the children of kind text or tag.
\<close>

fun HTMLString :: "Node \<Rightarrow> string"
  and ListNode_range :: "Node list \<Rightarrow> string \<Rightarrow> string"
  and TagNode_range1 :: "Node list \<Rightarrow> string \<times> string \<times> nat \<Rightarrow> string \<times> string \<times> nat"
  and TagNode_range2 :: "Node list \<Rightarrow> string \<Rightarrow> string"
where
  "HTMLString (ListNode ns) = ListNode_range ns []"
| \<open>HTMLString (TagNode tag ns) =
    (let b0 = ''<'' @ tag;
         (b1, classes, n_classes) = TagNode_range1 ns (b0, [], 0);
         b2 = (if length classes > 0 then b1 @ '' class="'' @ classes @ ''"'' else b1);
         b3 = b2 @ ''>'';
         b4 = TagNode_range2 ns b3
     in b4 @ ''</'' @ tag @ ''>'')\<close>
| "HTMLString (TextNode t) = String (TextNode t)"
| \<open>HTMLString (DoctypeNode d) =
    (let defined = doctypes_index d
     in if length defined \<noteq> 0 then defined else ''<!DOCTYPE '' @ d @ '' >'')\<close>
| "HTMLString (AttrNode a) = String (AttrNode a)"
| "HTMLString (IdNode i) = String (IdNode i)"
| "HTMLString (ClassNode c) = String (ClassNode c)"
| "ListNode_range [] b = b"
| "ListNode_range (n # ns) b = ListNode_range ns (b @ HTMLString n)"
| "TagNode_range1 [] st = st"
| \<open>TagNode_range1 (n # ns) (b, classes, n_classes) =
    (let (classes1, n_classes1) =
           (if Type n = NodeClass
            then ((if n_classes > 0 then classes @ '' '' else classes) @ HTMLString n,
                  n_classes + 1)
            else (classes, n_classes));
         b1 = (if Type n = NodeAttr then b @ '' '' @ HTMLString n else b);
         b2 = (if Type n = NodeId then b1 @ '' id="'' @ HTMLString n @ ''"'' else b1)
     in TagNode_range1 ns (b2, classes1, n_classes1))\<close>
| "TagNode_range2 [] b = b"
| "TagNode_range2 (n # ns) b =
    TagNode_range2 ns (if Type n = NodeText \<or> Type n = NodeTag then b @ HTMLString n else b)"

subsection \<open>Reading the rendering of a tag\<close>

text \<open>
  The functions below are not part of the source: they name the pieces of the string a
  tag renders to, so that the properties of \<open>HTMLString\<close> can be stated. \<open>Join\<close> is
  the usual joining of strings with a separator; \<open>class_payloads\<close> are the renderings
  of the children of kind class, in order; \<open>attr_fragment\<close> is what one child adds to
  the opening tag when it is of kind attr or id (and nothing otherwise);
  \<open>class_attribute\<close> is the class attribute of a joined list of classes; and
  \<open>body_children\<close> are the children of kind text or tag, in order.
\<close>

fun Join :: "string list \<Rightarrow> string \<Rightarrow> string" where
  "Join [] sep = []"
| "Join [x] sep = x"
| "Join (x # y # ys) sep = x @ sep @ Join (y # ys) sep"

definition class_payloads :: "Node list \<Rightarrow> string list" where
  "class_payloads ns = map HTMLString (filter (\<lambda>n. Type n = NodeClass) ns)"

definition attr_fragment :: "Node \<Rightarrow> string" where
  \<open>attr_fragment n =
    (if Type n = NodeAttr then '' '' @ HTMLString n
     else if Type n = NodeId then '' id="'' @ HTMLString n @ ''"''
     else [])\<close>

definition class_attribute :: "string list \<Rightarrow> string" where
  \<open>class_attribute cs =
     (if length (Join cs '' '') > 0 then '' class="'' @ Join cs '' '' @ ''"'' else [])\<close>

definition body_children :: "Node list \<Rightarrow> Node list" where
  "body_children ns = filter (\<lambda>n. Type n = NodeText \<or> Type n = NodeTag) ns"

section \<open>Nodes in memory and \<open>Copy\<close>\<close>

text \<open>
  What \<open>Copy\<close> promises is about storage, so the nodes are modelled a second time, with
  the addresses of what they occupy. A \<open>Ref\<close> is a non-nil pointer to one of the seven
  structs together with everything reachable from it: the address of the struct, the
  address of the array behind its byte slice (\<open>None\<close> for a slice of length zero, which
  owns no array), and for a list or a tag the address of the array behind \<open>Nodes\<close>
  (\<open>None\<close> for a nil slice) and the children. \<open>node_of\<close> forgets the addresses;
  \<open>storage\<close> collects them.

  Allocation is explicit state passing: the state is the next unused address, \<open>new\<close>
  hands it out, and \<open>make_bytes\<close> is the allocation of a byte slice with given contents
  (\<open>[]byte(s)\<close> and \<open>append([]byte{}, s...)\<close>: a new array, unless there is nothing to
  store). \<open>Copy_range\<close> is the loop \<open>for _, elem := range l.Nodes { n.append(elem.Copy()) }\<close>
  over the slice \<open>n.Nodes\<close> being built; \<open>append\<close> is modelled as moving the slice to
  a newly allocated array at every call (the runtime does so only when the capacity is
  exhausted, and otherwise keeps an array that an earlier \<open>append\<close> of the same loop
  allocated). The equations of \<open>Copy\<close> for a list and for a tag are the
  bodies of \<open>CopyList\<close> and \<open>CopyTag\<close>; the nil receivers these two test for are
  not values of \<open>Ref\<close>.
\<close>

type_synonym addr = nat

datatype Ref =
    ListRef addr "addr option" "Ref list"
  | TagRef addr "addr option" string "addr option" "Ref list"
  | TextRef addr "addr option" string
  | DoctypeRef addr "addr option" string
  | AttrRef addr "addr option" string
  | IdRef addr "addr option" string
  | ClassRef addr "addr option" string

fun node_of :: "Ref \<Rightarrow> Node" where
  "node_of (ListRef a arr ns) = ListNode (map node_of ns)"
| "node_of (TagRef a ta tag arr ns) = TagNode tag (map node_of ns)"
| "node_of (TextRef a ta t) = TextNode t"
| "node_of (DoctypeRef a ta d) = DoctypeNode d"
| "node_of (AttrRef a ta x) = AttrNode x"
| "node_of (IdRef a ta i) = IdNode i"
| "node_of (ClassRef a ta c) = ClassNode c"

fun storage :: "Ref \<Rightarrow> addr set" where
  "storage (ListRef a arr ns) = {a} \<union> set_option arr \<union> (\<Union>n \<in> set ns. storage n)"
| "storage (TagRef a ta tag arr ns) =
     {a} \<union> set_option ta \<union> set_option arr \<union> (\<Union>n \<in> set ns. storage n)"
| "storage (TextRef a ta t) = {a} \<union> set_option ta"
| "storage (DoctypeRef a ta d) = {a} \<union> set_option ta"
| "storage (AttrRef a ta x) = {a} \<union> set_option ta"
| "storage (IdRef a ta i) = {a} \<union> set_option ta"
| "storage (ClassRef a ta c) = {a} \<union> set_option ta"

definition new :: "nat \<Rightarrow> addr \<times> nat" where
  "new h = (h, Suc h)"

definition make_bytes :: "string \<Rightarrow> nat \<Rightarrow> addr option \<times> nat" where
  "make_bytes s h = (if s = [] then (None, h) else (Some h, Suc h))"

fun Copy :: "Ref \<Rightarrow> nat \<Rightarrow> Ref \<times> nat"
  and Copy_range :: "Ref list \<Rightarrow> addr option \<times> Ref list \<Rightarrow> nat \<Rightarrow> (addr option \<times> Ref list) \<times> nat"
where
  "Copy (ListRef a arr ns) h =
     (let (a', h1) = new h;
          ((arr', ns'), h2) = Copy_range ns (None, []) h1
      in (ListRef a' arr' ns', h2))"
| "Copy (TagRef a ta tag arr ns) h =
     (let (ta', h1) = make_bytes tag h;
          (a', h2) = new h1;
          ((arr', ns'), h3) = Copy_range ns (None, []) h2
      in (TagRef a' ta' tag arr' ns', h3))"
| "Copy (TextRef a ta t) h =
     (let (ta', h1) = make_bytes t h; (a', h2) = new h1 in (TextRef a' ta' t, h2))"
| "Copy (DoctypeRef a ta d) h =
     (let (ta', h1) = make_bytes d h; (a', h2) = new h1 in (DoctypeRef a' ta' d, h2))"
| "Copy (AttrRef a ta x) h =
     (let (ta', h1) = make_bytes x h; (a', h2) = new h1 in (AttrRef a' ta' x, h2))"
| "Copy (IdRef a ta i) h =
     (let (ta', h1) = make_bytes i h; (a', h2) = new h1 in (IdRef a' ta' i, h2))"
| "Copy (ClassRef a ta c) h =
     (let (ta', h1) = make_bytes c h; (a', h2) = new h1 in (ClassRef a' ta' c, h2))"
| "Copy_range [] sl h = (sl, h)"
| "Copy_range (elem # rest) (arr, ns) h =
     (let (c, h1) = Copy elem h;
          (arr', h2) = new h1
      in Copy_range rest (Some arr', ns @ [c]) h2)"

definition slice_storage :: "addr option \<times> Ref list \<Rightarrow> addr set" where
  "slice_storage sl = set_option (fst sl) \<union> (\<Union>n \<in> set (snd sl). storage n)"

section \<open>The scanner (package jade, lexer)\<close>

text \<open>
  An item is a token: its type and its text. The types are the constants of the source,
  in order.
\<close>

datatype itemType =
    itemError | itemText | itemEndl | itemTag | itemAttr | itemIdentSpace | itemIdentTab
  | itemDoctype | itemComment | itemBlank | itemId | itemClass | itemEOF

record item =
  "typ" :: itemType
  val :: string

text \<open>
  A \<open>stateFn\<close> of the source is one of its ten state functions; the value names the
  function, \<open>call\<close> below runs it, and the nil function is \<open>None\<close> in the field
  \<open>state\<close>.
\<close>

datatype stateFn =
    LexTag | LexEOF | LexDocType | LexId | LexClass | LexText | LexComment | LexAttr
  | LexIndent | LexNewLine

text \<open>
  The ways a run of the scanner stops without returning: an index or a slice expression
  out of range, a call of the nil state function, and a send on the full channel
  \<open>items\<close>. The scanner runs in the goroutine of its caller (\<open>nextItem\<close> runs the state
  functions itself), so nothing receives while a state function sends, and a send on the
  full channel never returns.
\<close>

datatype panic = IndexOutOfRange | SliceBoundsOutOfRange | NilFuncCall | Deadlock

text \<open>
  The struct \<open>lexer\<close>. Positions are byte offsets into \<open>input\<close>; the channel \<open>items\<close>
  is the list of the items buffered in it, oldest first, and holds at most two
  (\<open>make(chan item, 2)\<close>).
\<close>

record lexer =
  name :: string
  input :: string
  leftDelim :: string
  rightDelim :: string
  state :: "stateFn option"
  pos :: nat
  start :: nat
  width :: nat
  items :: "item list"

text \<open>
  Runes are integers, \<open>eof\<close> is \<open>-1\<close>. \<open>DecodeRuneInString\<close> is the function of the Go
  library package \<open>unicode/utf8\<close>: the first UTF-8 sequence of the string and its width in
  bytes, or \<open>(RuneError, 1)\<close> when the string does not start with a valid sequence.
  \<open>HasPrefix\<close> and \<open>Index\<close> are those of the package \<open>strings\<close>; \<open>Index\<close> is \<open>-1\<close> when
  the substring does not occur.
\<close>

definition eof :: int where
  "eof = - 1"

definition RuneError :: int where
  "RuneError = 0xFFFD"

definition rune :: "char \<Rightarrow> int" where
  "rune c = int (of_char c)"

definition DecodeRuneInString :: "string \<Rightarrow> int \<times> nat" where
  "DecodeRuneInString s =
    (case s of
       [] \<Rightarrow> (RuneError, 0)
     | c0 # s' \<Rightarrow>
        (let b0 = (of_char c0 :: nat) in
         if b0 < 0x80 then (int b0, 1)
         else if b0 < 0xC2 \<or> 0xF4 < b0 then (RuneError, 1)
         else
           (let sz = (if b0 < 0xE0 then 2 else if b0 < 0xF0 then 3 else (4::nat));
                lo = (if b0 = 0xE0 then 0xA0 else if b0 = 0xF0 then 0x90 else (0x80::nat));
                hi = (if b0 = 0xED then 0x9F else if b0 = 0xF4 then 0x8F else (0xBF::nat))
            in if length s < sz then (RuneError, 1)
               else
                 (let b1 = (of_char (s ! 1) :: nat) in
                  if b1 < lo \<or> hi < b1 then (RuneError, 1)
                  else if sz \<le> 2 then (int ((b0 - 0xC0) * 64 + (b1 - 0x80)), 2)
                  else
                    (let b2 = (of_char (s ! 2) :: nat) in
                     if b2 < 0x80 \<or> 0xBF < b2 then (RuneError, 1)
                     else if sz \<le> 3
                       then (int ((b0 - 0xE0) * 4096 + (b1 - 0x80) * 64 + (b2 - 0x80)), 3)
                     else
                       (let b3 = (of_char (s ! 3) :: nat) in
                        if b3 < 0x80 \<or> 0xBF < b3 then (RuneError, 1)
                        else (int ((b0 - 0xF0) * 262144 + (b1 - 0x80) * 4096
                                     + (b2 - 0x80) * 64 + (b3 - 0x80)), 4)))))))"

definition HasPrefix :: "string \<Rightarrow> string \<Rightarrow> bool" where
  "HasPrefix s prefix = (length s \<ge> length prefix \<and> take (length prefix) s = prefix)"

fun Index :: "string \<Rightarrow> string \<Rightarrow> int" where
  "Index [] substr = (if substr = [] then 0 else - 1)"
| "Index (c # s) substr =
     (if HasPrefix (c # s) substr then 0
      else (let i = Index s substr in if i < 0 then - 1 else i + 1))"

text \<open>
  \<open>andThen\<close> sequences two steps of which the first may panic.
\<close>

fun andThen :: "'e + 'a \<Rightarrow> ('a \<Rightarrow> 'e + 'b) \<Rightarrow> 'e + 'b" where
  "andThen (Inl e) f = Inl e"
| "andThen (Inr x) f = f x"

text \<open>
  The methods of the lexer. Each takes the lexer and returns it updated, next to its
  result when it has one. \<open>send\<close> is the channel send \<open>l.items <- i\<close>; \<open>input_at_start\<close>
  is the index expression \<open>l.input[l.start]\<close>, and the slice expression
  \<open>l.input[l.start:l.pos]\<close> of \<open>emit\<close> panics unless \<open>start \<le> pos \<le> len(input)\<close>.
\<close>

definition "next" :: "lexer \<Rightarrow> int \<times> lexer" where
  "next l =
    (if pos l \<ge> length (input l) then (eof, l\<lparr>width := 0\<rparr>)
     else (let (r, w) = DecodeRuneInString (drop (pos l) (input l))
           in (r, l\<lparr>width := w, pos := pos l + w\<rparr>)))"

definition backup :: "lexer \<Rightarrow> lexer" where
  "backup l = l\<lparr>pos := pos l - width l\<rparr>"

definition peek :: "lexer \<Rightarrow> int \<times> lexer" where
  "peek l = (let (r, l1) = next l in (r, backup l1))"

definition send :: "item \<Rightarrow> lexer \<Rightarrow> panic + lexer" where
  "send i l = (if length (items l) \<ge> 2 then Inl Deadlock else Inr (l\<lparr>items := items l @ [i]\<rparr>))"

definition emit :: "itemType \<Rightarrow> lexer \<Rightarrow> panic + lexer" where
  "emit t l =
    (if start l > pos l \<or> pos l > length (input l) then Inl SliceBoundsOutOfRange
     else andThen (send \<lparr>typ = t, val = take (pos l - start l) (drop (start l) (input l))\<rparr> l)
            (\<lambda>l1. Inr (l1\<lparr>start := pos l1\<rparr>)))"

definition ignore :: "lexer \<Rightarrow> lexer" where
  "ignore l = l\<lparr>start := pos l\<rparr>"

definition errorf :: "string \<Rightarrow> lexer \<Rightarrow> panic + stateFn option \<times> lexer" where
  "errorf msg l = andThen (send \<lparr>typ = itemError, val = msg\<rparr> l) (\<lambda>l1. Inr (None, l1))"

definition input_at_start :: "lexer \<Rightarrow> panic + char" where
  "input_at_start l =
     (if start l < length (input l) then Inr (input l ! start l) else Inl IndexOutOfRange)"


text \<open>
  The state functions. Each returns the next state function and the lexer, or a panic.
  The \<open>switch\<close> statements become chains of \<open>if\<close> in the order of the cases.
\<close>

definition Comment :: string where "Comment = ''//''"
definition docTypeShort :: string where "docTypeShort = ''!!!''"
definition docTypeLong :: string where "docTypeLong = ''doctype''"

definition lex :: "string \<Rightarrow> string \<Rightarrow> string \<Rightarrow> string \<Rightarrow> lexer" where
  "lex nm inp left right =
     \<lparr>name = nm, input = inp,
      leftDelim = (if left = [] then ''{{'' else left),
      rightDelim = (if right = [] then ''}}'' else right),
      state = Some LexTag, pos = 0, start = 0, width = 0, items = []\<rparr>"

definition lexEOF :: "lexer \<Rightarrow> panic + stateFn option \<times> lexer" where
  "lexEOF l =
     andThen (if pos l > start l then emit itemText l else Inr l) (\<lambda>l1.
     andThen (emit itemEOF l1) (\<lambda>l2.
     Inr (None, l2)))"

definition lexTag :: "lexer \<Rightarrow> panic + stateFn option \<times> lexer" where
  "lexTag l =
     andThen (input_at_start l) (\<lambda>c.
       if c = CHR ''.'' then
         andThen (emit itemTag l) (\<lambda>l1. Inr (Some LexClass, snd (next l1)))
       else if c = CHR ''#'' then
         andThen (emit itemTag l) (\<lambda>l1. Inr (Some LexId, snd (next l1)))
       else if c = CHR '' '' \<or> c = CHR 0x09 then Inr (Some LexIndent, l)
       else if c = CHR ''|'' then Inr (Some LexText, ignore l)
       else if c = CHR 0x0D \<or> c = CHR 0x0A then Inr (Some LexNewLine, l)
       else if HasPrefix (drop (start l) (input l)) Comment then Inr (Some LexComment, l)
       else if HasPrefix (drop (start l) (input l)) docTypeShort
             \<or> HasPrefix (drop (start l) (input l)) docTypeLong then Inr (Some LexDocType, l)
       else
         (let (r, l0) = peek l in
          if r = eof then
            andThen (if pos l0 > start l0 then emit itemTag l0 else Inr l0) (\<lambda>l1.
            Inr (Some LexEOF, l1))
          else if r = rune CHR '' '' then
            andThen (emit itemTag l0) (\<lambda>l1. Inr (Some LexText, ignore (snd (next l1))))
          else if r = rune CHR ''('' then
            andThen (emit itemTag l0) (\<lambda>l1. Inr (Some LexAttr, ignore (snd (next l1))))
          else if r = rune CHR ''.'' then
            andThen (emit itemTag l0) (\<lambda>l1. Inr (Some LexClass, ignore (snd (next l1))))
          else if r = rune CHR ''#'' then
            andThen (emit itemTag l0) (\<lambda>l1. Inr (Some LexId, ignore (snd (next l1))))
          else if r = rune CHR 0x0A \<or> r = rune CHR 0x0D then
            andThen (emit itemTag l0) (\<lambda>l1. Inr (Some LexNewLine, snd (next l1)))
          else Inr (Some LexTag, snd (next l0))))"

definition lexDocType :: "lexer \<Rightarrow> panic + stateFn option \<times> lexer" where
  "lexDocType l =
     (if pos l > length (input l) then Inl SliceBoundsOutOfRange
      else
        (let pre = (if HasPrefix (drop (pos l) (input l)) ''!!!''
                    then length ''!!! '' else length ''doctype '');
             i = Index (drop (pos l) (input l)) [CHR 0x0A]
         in if i < 0 then errorf ''unclosed doctype'' l
            else
              andThen (emit itemDoctype (l\<lparr>start := start l + pre, pos := pos l + nat i\<rparr>)) (\<lambda>l1.
              Inr (Some LexNewLine, snd (next l1)))))"

definition lexId :: "lexer \<Rightarrow> panic + stateFn option \<times> lexer" where
  "lexId l =
     (let (r, l0) = peek l in
      if r = rune CHR 0x0D \<or> r = rune CHR 0x0A then
        andThen (emit itemId l0) (\<lambda>l1. Inr (Some LexNewLine, snd (next l1)))
      else if r = rune CHR ''('' then
        andThen (emit itemId l0) (\<lambda>l1. Inr (Some LexAttr, snd (next l1)))
      else if r = rune CHR '' '' then
        andThen (emit itemId l0) (\<lambda>l1. Inr (Some LexText, snd (next l1)))
      else if r = rune CHR ''.'' then
        andThen (emit itemId l0) (\<lambda>l1. Inr (Some LexClass, snd (next l1)))
      else if r = eof then
        andThen (emit itemId l0) (\<lambda>l1. Inr (Some LexEOF, l1))
      else Inr (Some LexId, snd (next l0)))"

definition lexClass :: "lexer \<Rightarrow> panic + stateFn option \<times> lexer" where
  "lexClass l =
     (let (r, l0) = peek l in
      if r = rune CHR 0x0D \<or> r = rune CHR 0x0A then
        andThen (emit itemClass l0) (\<lambda>l1. Inr (Some LexNewLine, snd (next l1)))
      else if r = rune CHR ''('' then
        andThen (emit itemClass l0) (\<lambda>l1. Inr (Some LexAttr, snd (next l1)))
      else if r = rune CHR '' '' then
        andThen (emit itemClass l0) (\<lambda>l1. Inr (Some LexText, snd (next l1)))
      else if r = eof then
        andThen (emit itemClass l0) (\<lambda>l1. Inr (Some LexEOF, l1))
      else Inr (Some LexClass, snd (next l0)))"

definition unexpected :: "char \<Rightarrow> lexer \<Rightarrow> panic + bool" where
  "unexpected r l = andThen (input_at_start l) (\<lambda>c. Inr (c = r))"

definition lexText :: "lexer \<Rightarrow> panic + stateFn option \<times> lexer" where
  "lexText l =
     andThen (unexpected (CHR 0x0A) l) (\<lambda>u1.
     andThen (if u1 then Inr True else unexpected (CHR 0x0D) l) (\<lambda>u.
       if u then Inr (Some LexNewLine, l)
       else
         (let (r, l0) = peek l in
          if r = rune CHR 0x0D \<or> r = rune CHR 0x0A then
            andThen (emit itemText l0) (\<lambda>l1. Inr (Some LexNewLine, snd (next l1)))
          else if r = eof then
            andThen (emit itemText l0) (\<lambda>l1. Inr (Some LexEOF, l1))
          else Inr (Some LexText, snd (next l0)))))"

definition lexComment :: "lexer \<Rightarrow> panic + stateFn option \<times> lexer" where
  "lexComment l =
     (let (r, l0) = peek l in
      if r = rune CHR 0x0D \<or> r = rune CHR 0x0A then
        andThen (emit itemComment l0) (\<lambda>l1. Inr (Some LexNewLine, snd (next l1)))
      else if r = eof then
        andThen (emit itemComment l0) (\<lambda>l1. Inr (Some LexEOF, l1))
      else Inr (Some LexComment, snd (next l0)))"

text \<open>
  \<open>lexAttr\<close> has the only loop inside a state function, the one labelled \<open>Loop\<close>. It has
  no case for the end of the input, so it may run forever: it is a partial function, and
  \<open>None\<close> is the run that never returns.
\<close>

partial_function (option) lexAttr_Loop :: "lexer \<Rightarrow> (panic + lexer) option" where
  "lexAttr_Loop l =
     (case peek l of (r, l0) \<Rightarrow>
        if r = rune CHR '')'' then Some (Inr l0)
        else if r = rune CHR '','' then
          (case emit itemAttr l0 of
             Inl e \<Rightarrow> Some (Inl e)
           | Inr l1 \<Rightarrow> lexAttr_Loop (ignore (snd (next l1))))
        else lexAttr_Loop (snd (next l0)))"

definition lexAttr :: "lexer \<Rightarrow> (panic + stateFn option \<times> lexer) option" where
  "lexAttr l =
     (case lexAttr_Loop l of
        None \<Rightarrow> None
      | Some res \<Rightarrow>
          Some (andThen res (\<lambda>l0.
                andThen (emit itemAttr l0) (\<lambda>l1.
                Inr (Some LexText, snd (next (ignore (snd (next l1)))))))))"

definition lexIndent :: "lexer \<Rightarrow> panic + stateFn option \<times> lexer" where
  "lexIndent l =
     andThen (input_at_start l) (\<lambda>c.
       if c = CHR 0x09 then
         andThen (emit itemIdentTab l) (\<lambda>l1. Inr (Some LexIndent, snd (next l1)))
       else if c = CHR '' '' then
         andThen (emit itemIdentSpace l) (\<lambda>l1. Inr (Some LexIndent, snd (next l1)))
       else Inr (Some LexTag, l))"

definition lexNewLine :: "lexer \<Rightarrow> panic + stateFn option \<times> lexer" where
  "lexNewLine l =
     andThen (input_at_start l) (\<lambda>c.
       if c = CHR 0x0D \<or> c = CHR 0x0A then
         andThen (emit itemEndl l) (\<lambda>l1. Inr (Some LexNewLine, snd (next l1)))
       else Inr (Some LexIndent, l))"

text \<open>
  \<open>call f l\<close> is the call \<open>f(l)\<close> of a state function. \<open>nextItem\<close> is the loop of the
  source: return a buffered item if there is one, otherwise run the current state
  function, store the state it returns, and try again; calling the nil state function
  panics. \<open>TestJade_loop\<close> is the loop of the test \<open>TestJade\<close> (lex_test.go): it takes
  items until one is of type \<open>itemEOF\<close> or \<open>itemError\<close>, and yields the items it has
  printed, with the panic that ended the run if there was one.
\<close>

fun call :: "stateFn \<Rightarrow> lexer \<Rightarrow> (panic + stateFn option \<times> lexer) option" where
  "call LexTag l = Some (lexTag l)"
| "call LexEOF l = Some (lexEOF l)"
| "call LexDocType l = Some (lexDocType l)"
| "call LexId l = Some (lexId l)"
| "call LexClass l = Some (lexClass l)"
| "call LexText l = Some (lexText l)"
| "call LexComment l = Some (lexComment l)"
| "call LexAttr l = lexAttr l"
| "call LexIndent l = Some (lexIndent l)"
| "call LexNewLine l = Some (lexNewLine l)"

partial_function (option) nextItem :: "lexer \<Rightarrow> (panic + item \<times> lexer) option" where
  "nextItem l =
     (case items l of
        i # rest \<Rightarrow> Some (Inr (i, l\<lparr>items := rest\<rparr>))
      | [] \<Rightarrow>
         (case state l of
            None \<Rightarrow> Some (Inl NilFuncCall)
          | Some f \<Rightarrow>
             (case call f l of
                None \<Rightarrow> None
              | Some (Inl e) \<Rightarrow> Some (Inl e)
              | Some (Inr (st, l1)) \<Rightarrow> nextItem (l1\<lparr>state := st\<rparr>))))"

partial_function (option) TestJade_loop :: "lexer \<Rightarrow> item list \<Rightarrow> (item list \<times> panic option) option" where
  "TestJade_loop l printed =
     (case nextItem l of
        None \<Rightarrow> None
      | Some (Inl e) \<Rightarrow> Some (printed, Some e)
      | Some (Inr (i, l1)) \<Rightarrow>
          if typ i = itemEOF \<or> typ i = itemError then Some (printed @ [i], None)
          else TestJade_loop l1 (printed @ [i]))"

declare lexAttr_Loop.simps [code]

declare nextItem.simps [code]

declare TestJade_loop.simps [code]

section \<open>Parse\<close>





subsection \<open>Standing at an unclosed doctype line\<close>


section \<open>Properties of the rendering\<close>

subsection \<open>The loops as concatenations\<close>

lemma Join_Cons: "Join (x # xs) sep = x @ (if xs = [] then [] else sep @ Join xs sep)"
  by (cases xs) simp_all

lemma TagNode_range1_eq:
  "TagNode_range1 ns (b, classes, k) =
     (b @ concat (map attr_fragment ns),
      classes @ (if class_payloads ns = [] then []
                 else (if k > 0 then '' '' else []) @ Join (class_payloads ns) '' ''),
      k + length (class_payloads ns))"
proof (induction ns arbitrary: b classes k)
  case Nil
  show ?case by (simp add: class_payloads_def)
next
  case (Cons n ns)
  show ?case
    by (simp add: Cons.IH Let_def attr_fragment_def class_payloads_def Join_Cons)
qed

lemma TagNode_range2_eq:
  "TagNode_range2 ns b = b @ concat (map HTMLString (body_children ns))"
  by (induction ns arbitrary: b) (simp_all add: body_children_def)

lemma ListNode_range_eq:
  "ListNode_range ns b = b @ concat (map HTMLString ns)"
  by (induction ns arbitrary: b) simp_all

lemma TagNode_HTMLString_eq:
  \<open>HTMLString (TagNode tag ns) =
     ''<'' @ tag @ concat (map attr_fragment ns) @ class_attribute (class_payloads ns) @ ''>''
       @ concat (map HTMLString (body_children ns)) @ ''</'' @ tag @ ''>''\<close>
  by (simp add: TagNode_range1_eq TagNode_range2_eq class_attribute_def Let_def)

lemma doctypes_nonempty: "doctypes p = Some v \<Longrightarrow> v \<noteq> []"
  unfolding doctypes_def by (auto split: if_splits)

lemma doctypes_dom:
  "dom doctypes = {''5'', ''default'', ''xml'', ''transitional'', ''strict'', ''frameset'',
                   ''1.1'', ''basic'', ''mobile''}"
  unfolding doctypes_def by (simp add: dom_map_of_conv_image_fst)

subsection \<open>Doctype\<close>

text \<open>
  Claim C4. A doctype node renders by looking its payload up in the fixed table, whose
  keys are exactly 5, default, xml, transitional, strict, frameset, 1.1, basic and
  mobile: a payload in the table renders to the table's entry, in particular
  \<open>5\<close> to \<open><!DOCTYPE html>\<close>; a payload absent from the table renders to
  \<open><!DOCTYPE payload >\<close>, in particular \<open>unknown\<close> to \<open><!DOCTYPE unknown >\<close>.
\<close>

theorem DoctypeNode_HTMLString_table:
  \<open>dom doctypes = {''5'', ''default'', ''xml'', ''transitional'', ''strict'', ''frameset'',
                   ''1.1'', ''basic'', ''mobile''}
   \<and> (\<forall>v. doctypes d = Some v \<longrightarrow> HTMLString (DoctypeNode d) = v)
   \<and> (d \<notin> dom doctypes \<longrightarrow> HTMLString (DoctypeNode d) = ''<!DOCTYPE '' @ d @ '' >'')
   \<and> HTMLString (DoctypeNode ''5'') = ''<!DOCTYPE html>''
   \<and> HTMLString (DoctypeNode ''unknown'') = ''<!DOCTYPE unknown >''\<close>
proof (intro conjI allI impI)
  show "dom doctypes = {''5'', ''default'', ''xml'', ''transitional'', ''strict'', ''frameset'',
                        ''1.1'', ''basic'', ''mobile''}"
    by (rule doctypes_dom)
next
  fix v assume "doctypes d = Some v"
  then show "HTMLString (DoctypeNode d) = v"
    using doctypes_nonempty [of d v] by (simp add: doctypes_index_def)
next
  assume "d \<notin> dom doctypes"
  then show "HTMLString (DoctypeNode d) = ''<!DOCTYPE '' @ d @ '' >''"
    by (simp add: doctypes_index_def domIff)
next
  show \<open>HTMLString (DoctypeNode ''5'') = ''<!DOCTYPE html>''\<close>
    by (simp add: doctypes_index_def doctypes_def)
next
  show \<open>HTMLString (DoctypeNode ''unknown'') = ''<!DOCTYPE unknown >''\<close>
    by (simp add: doctypes_index_def doctypes_def)
qed

theorem DoctypeNode_HTMLString_table_witness:
  \<open>doctypes ''xml'' = Some ''<?xml version="1.0" encoding="utf-8" ?>''
   \<and> HTMLString (DoctypeNode ''xml'') = ''<?xml version="1.0" encoding="utf-8" ?>''
   \<and> ''html5'' \<notin> dom doctypes
   \<and> HTMLString (DoctypeNode ''html5'') = ''<!DOCTYPE html5 >''\<close>
proof -
  have k: \<open>doctypes ''xml'' = Some ''<?xml version="1.0" encoding="utf-8" ?>''\<close>
    by (simp add: doctypes_def)
  have a: "''html5'' \<notin> dom doctypes"
    by (simp add: doctypes_def)
  from k a show ?thesis
    using DoctypeNode_HTMLString_table [of "''xml''"]
      DoctypeNode_HTMLString_table [of "''html5''"]
    by simp
qed

subsection \<open>Tags\<close>

text \<open>
  Claim C5, as the code has it. The opening tag lists what the children of kind attr and
  id add to it in the order of the children: with an id child between the children
  \<open>xs\<close> and \<open>ys\<close>, the fragments of \<open>xs\<close> come first, then \<open>id="payload"\<close>, then the
  fragments of \<open>ys\<close>, and the class attribute after all of them. So the id stands after
  the attributes that precede the id child and before the attributes that follow it; an
  attr child adds a space and its payload.
\<close>

theorem TagNode_id_in_child_order:
  \<open>HTMLString (TagNode tag (xs @ IdNode i # ys)) =
     ''<'' @ tag @ concat (map attr_fragment xs) @ '' id="'' @ i @ ''"''
       @ concat (map attr_fragment ys) @ class_attribute (class_payloads (xs @ ys)) @ ''>''
       @ concat (map HTMLString (body_children (xs @ ys))) @ ''</'' @ tag @ ''>''
   \<and> attr_fragment (AttrNode a) = '' '' @ a\<close>
  by (simp add: TagNode_HTMLString_eq attr_fragment_def class_payloads_def body_children_def
      del: HTMLString.simps(2))

text \<open>
  The claim as the specification states it (the id after all attribute payloads) fails on
  the children of \<open>div#main(data-x=1,data-y=2)\<close> in lexical order: the id child comes
  first and is rendered first.
\<close>

theorem TagNode_id_after_attrs_counterexample:
  \<open>HTMLString (TagNode ''div'' [IdNode ''main'', AttrNode ''data-x=1'', AttrNode ''data-y=2''])
     = ''<div id="main" data-x=1 data-y=2></div>''
   \<and> HTMLString (TagNode ''div'' [IdNode ''main'', AttrNode ''data-x=1'', AttrNode ''data-y=2''])
     \<noteq> ''<div data-x=1 data-y=2 id="main"></div>''\<close>
  by simp

text \<open>
  Claim C6. The payloads of the class children of a tag are joined by single spaces, in
  the order of the children and without removing duplicates, and the joined list is
  appended as \<open>class="..."\<close> after everything the attr and id children add, when the
  joined list is not empty; with no class child nothing is appended. Class children
  \<open>a\<close>, \<open>b\<close>, \<open>a\<close> give \<open>class="a b a"\<close>.
\<close>

theorem TagNode_class_aggregation:
  \<open>HTMLString (TagNode tag ns) =
     ''<'' @ tag @ concat (map attr_fragment ns)
       @ (if length (Join (class_payloads ns) '' '') > 0
          then '' class="'' @ Join (class_payloads ns) '' '' @ ''"'' else [])
       @ ''>'' @ concat (map HTMLString (body_children ns)) @ ''</'' @ tag @ ''>''
   \<and> class_payloads (xs @ ClassNode c # ys) = class_payloads xs @ c # class_payloads ys
   \<and> (class_payloads ns = [] \<longrightarrow>
        HTMLString (TagNode tag ns) =
          ''<'' @ tag @ concat (map attr_fragment ns) @ ''>''
            @ concat (map HTMLString (body_children ns)) @ ''</'' @ tag @ ''>'')
   \<and> HTMLString (TagNode ''p'' [ClassNode ''a'', ClassNode ''b'', ClassNode ''a''])
        = ''<p class="a b a"></p>''\<close>
proof (intro conjI)
  show \<open>HTMLString (TagNode ''p'' [ClassNode ''a'', ClassNode ''b'', ClassNode ''a''])
        = ''<p class="a b a"></p>''\<close>
    by simp
qed (simp_all add: TagNode_HTMLString_eq class_attribute_def class_payloads_def
      del: HTMLString.simps(2))

theorem TagNode_class_aggregation_witness:
  \<open>class_payloads [AttrNode ''href=x'', TextNode ''t''] = []
   \<and> HTMLString (TagNode ''a'' [AttrNode ''href=x'', TextNode ''t'']) = ''<a href=x>t</a>''
   \<and> HTMLString (TagNode ''i'' [ClassNode ''a'', IdNode ''k'', ClassNode ''b'', ClassNode ''a''])
        = ''<i id="k" class="a b a"></i>''\<close>
proof -
  have e: "class_payloads [AttrNode ''href=x'', TextNode ''t''] = []"
    by (simp add: class_payloads_def)
  from e show ?thesis
    using TagNode_class_aggregation [of "''a''" "[AttrNode ''href=x'', TextNode ''t'']"]
      TagNode_class_aggregation
        [of "''i''" "[ClassNode ''a'', IdNode ''k'', ClassNode ''b'', ClassNode ''a'']"]
    by (simp add: attr_fragment_def body_children_def class_payloads_def)
qed

text \<open>
  Claim C10. A child of a tag whose kind is none of attr, id, class, text and tag (a
  doctype or a list) adds nothing to what the tag renders to: the tag renders as it does
  without that child, so the child is passed over by the loop over the attributes and by
  the loop over the body.
\<close>

theorem TagNode_other_child_skipped:
  assumes "Type c \<notin> {NodeAttr, NodeId, NodeClass, NodeText, NodeTag}"
  shows "HTMLString (TagNode tag (xs @ c # ys)) = HTMLString (TagNode tag (xs @ ys))
       \<and> TagNode_range1 (c # ys) st = TagNode_range1 ys st
       \<and> TagNode_range2 (c # ys) b = TagNode_range2 ys b"
proof (intro conjI)
  from assms have f: "attr_fragment c = []"
    by (simp add: attr_fragment_def)
  from assms have p: "class_payloads (xs @ c # ys) = class_payloads (xs @ ys)"
    by (simp add: class_payloads_def)
  from assms have q: "body_children (xs @ c # ys) = body_children (xs @ ys)"
    by (simp add: body_children_def)
  show "HTMLString (TagNode tag (xs @ c # ys)) = HTMLString (TagNode tag (xs @ ys))"
    by (simp add: TagNode_HTMLString_eq f p q del: HTMLString.simps(2))
  from assms show "TagNode_range1 (c # ys) st = TagNode_range1 ys st"
    by (cases st) simp
  from assms show "TagNode_range2 (c # ys) b = TagNode_range2 ys b"
    by simp
qed

theorem TagNode_other_child_skipped_witness:
  \<open>Type (DoctypeNode ''5'') \<notin> {NodeAttr, NodeId, NodeClass, NodeText, NodeTag}
   \<and> HTMLString (TagNode ''p'' ([ClassNode ''k''] @ DoctypeNode ''5'' # [TextNode ''t'']))
       = ''<p class="k">t</p>''
   \<and> Type (ListNode [TextNode ''u'']) \<notin> {NodeAttr, NodeId, NodeClass, NodeText, NodeTag}
   \<and> HTMLString (TagNode ''p'' ([] @ ListNode [TextNode ''u''] # [TextNode ''t'']))
       = ''<p>t</p>''\<close>
proof -
  have d: "Type (DoctypeNode ''5'') \<notin> {NodeAttr, NodeId, NodeClass, NodeText, NodeTag}"
    by simp
  have l: "Type (ListNode [TextNode ''u'']) \<notin> {NodeAttr, NodeId, NodeClass, NodeText, NodeTag}"
    by simp
  show ?thesis
    using d l
      TagNode_other_child_skipped [OF d, of "''p''" "[ClassNode ''k'']" "[TextNode ''t'']"]
      TagNode_other_child_skipped [OF l, of "''p''" "[]" "[TextNode ''t'']"]
    by simp
qed

section \<open>Properties of \<open>Copy\<close>\<close>

lemma make_bytes_fresh:
  "h \<le> snd (make_bytes s h) \<and> set_option (fst (make_bytes s h)) \<subseteq> {h ..< snd (make_bytes s h)}"
  by (simp add: make_bytes_def)

lemma make_bytes_cases:
  "make_bytes s h = (None, h) \<or> make_bytes s h = (Some h, Suc h)"
  by (simp add: make_bytes_def)

lemma Copy_fresh:
  "node_of (fst (Copy r h)) = node_of r \<and> h \<le> snd (Copy r h)
     \<and> storage (fst (Copy r h)) \<subseteq> {h ..< snd (Copy r h)}"
  "map node_of (snd (fst (Copy_range ns sl h))) = map node_of (snd sl) @ map node_of ns
     \<and> h \<le> snd (Copy_range ns sl h)
     \<and> slice_storage (fst (Copy_range ns sl h)) \<subseteq> slice_storage sl \<union> {h ..< snd (Copy_range ns sl h)}"
proof (induction r h and ns sl h rule: Copy_Copy_range.induct)
  case (1 a arr ns h)
  obtain arr' ns' h2 where r: "Copy_range ns (None, []) (Suc h) = ((arr', ns'), h2)"
    by (metis surj_pair)
  note ih = "1.IH" [OF refl, unfolded new_def, OF refl]
  from ih have "map node_of ns' = map node_of ns" "Suc h \<le> h2"
       "slice_storage (arr', ns') \<subseteq> {Suc h ..< h2}"
    unfolding r by (simp_all add: slice_storage_def)
  then have "map node_of ns' = map node_of ns" "h \<le> h2"
       "{h} \<union> set_option arr' \<union> (\<Union>n \<in> set ns'. storage n) \<subseteq> {h ..< h2}"
    by (auto simp: slice_storage_def)
  with r show ?case
    by (simp add: new_def)
next
  case (2 a ta tag arr ns h)
  obtain ta' h1 where m: "make_bytes tag h = (ta', h1)"
    by (cases "make_bytes tag h")
  from make_bytes_fresh [of h tag] m have f: "h \<le> h1" "set_option ta' \<subseteq> {h ..< h1}"
    by simp_all
  obtain arr' ns' h2 where r: "Copy_range ns (None, []) (Suc h1) = ((arr', ns'), h2)"
    by (metis surj_pair)
  note ih = "2.IH" [OF refl m [symmetric] refl, unfolded new_def, OF refl]
  from ih have "map node_of ns' = map node_of ns" "Suc h1 \<le> h2"
       "slice_storage (arr', ns') \<subseteq> {Suc h1 ..< h2}"
    unfolding r by (simp_all add: slice_storage_def)
  with f have "map node_of ns' = map node_of ns" "h \<le> h2"
       "{h1} \<union> set_option ta' \<union> set_option arr' \<union> (\<Union>n \<in> set ns'. storage n) \<subseteq> {h ..< h2}"
    by (auto simp: slice_storage_def)
  with m r show ?case
    by (simp add: new_def)
next
  case (8 sl h)
  show ?case by simp
next
  case (9 elem rest arr ns h)
  obtain c h1 where e: "Copy elem h = (c, h1)"
    by (cases "Copy elem h")
  from "9.IH"(1) e have c: "node_of c = node_of elem" "h \<le> h1" "storage c \<subseteq> {h ..< h1}"
    by simp_all
  obtain sl' h2 where r: "Copy_range rest (Some h1, ns @ [c]) (Suc h1) = (sl', h2)"
    by (metis surj_pair)
  note ih = "9.IH"(2) [OF refl e [symmetric] refl, unfolded new_def, OF refl]
  from ih have "map node_of (snd sl') = map node_of (ns @ [c]) @ map node_of rest" "Suc h1 \<le> h2"
       "slice_storage sl' \<subseteq> slice_storage (Some h1, ns @ [c]) \<union> {Suc h1 ..< h2}"
    unfolding r by simp_all
  note step = this
  from c step(2) have "slice_storage (Some h1, ns @ [c]) \<subseteq> slice_storage (arr, ns) \<union> {h ..< h2}"
    by (auto simp: slice_storage_def)
  moreover from c(2) have "{Suc h1 ..< h2} \<subseteq> {h ..< h2}"
    by auto
  ultimately have "slice_storage sl' \<subseteq> slice_storage (arr, ns) \<union> {h ..< h2}"
    using step(3) by blast
  moreover from c step have "map node_of (snd sl') = map node_of ns @ map node_of (elem # rest)"
    "h \<le> h2"
    by simp_all
  ultimately show ?case
    using e r
    by (simp add: new_def)
qed (simp_all add: new_def make_bytes_def)

lemma Copy_node_of: "node_of (fst (Copy r h)) = node_of r"
  using Copy_fresh(1) by blast

lemma Copy_storage: "storage (fst (Copy r h)) \<subseteq> {h ..< snd (Copy r h)}"
  using Copy_fresh(1) by blast

text \<open>
  Claim C9. \<open>Copy\<close> returns a deep clone: the clone is the same node as the original
  (same kind, same payload, the children copied in the same order, recursively), so it
  renders to the same HTML and prints the same text; and no address of the clone, be it
  of a struct, of a byte array or of an array of children, is an address of the original.
  The hypothesis says that the original is allocated: its addresses are below the next
  unused one.
\<close>

theorem Copy_deep_clone:
  assumes "\<forall>a \<in> storage r. a < h"
  shows "node_of (fst (Copy r h)) = node_of r
       \<and> Type (node_of (fst (Copy r h))) = Type (node_of r)
       \<and> HTMLString (node_of (fst (Copy r h))) = HTMLString (node_of r)
       \<and> String (node_of (fst (Copy r h))) = String (node_of r)
       \<and> storage (fst (Copy r h)) \<inter> storage r = {}"
proof -
  have "storage (fst (Copy r h)) \<inter> storage r = {}"
    using Copy_storage [of r h] assms by fastforce
  then show ?thesis
    by (simp add: Copy_node_of)
qed

theorem Copy_deep_clone_witness:
  \<open>storage (TagRef 0 (Some 1) ''p'' (Some 4)
                        [TextRef 2 (Some 3) ''hi'', ClassRef 5 (Some 6) ''c'']) = {0, 1, 2, 3, 4, 5, 6}
   \<and> fst (Copy (TagRef 0 (Some 1) ''p'' (Some 4)
                  [TextRef 2 (Some 3) ''hi'', ClassRef 5 (Some 6) ''c'']) 7)
       = TagRef 8 (Some 7) ''p'' (Some 14)
           [TextRef 10 (Some 9) ''hi'', ClassRef 13 (Some 12) ''c'']
   \<and> HTMLString (node_of (fst (Copy (TagRef 0 (Some 1) ''p'' (Some 4)
                  [TextRef 2 (Some 3) ''hi'', ClassRef 5 (Some 6) ''c'']) 7)))
       = ''<p class="c">hi</p>''
   \<and> storage (fst (Copy (TagRef 0 (Some 1) ''p'' (Some 4)
                  [TextRef 2 (Some 3) ''hi'', ClassRef 5 (Some 6) ''c'']) 7))
       \<inter> storage (TagRef 0 (Some 1) ''p'' (Some 4)
                  [TextRef 2 (Some 3) ''hi'', ClassRef 5 (Some 6) ''c'']) = {}\<close>
proof -
  have a: "\<forall>a \<in> storage (TagRef 0 (Some 1) ''p'' (Some 4)
                        [TextRef 2 (Some 3) ''hi'', ClassRef 5 (Some 6) ''c'']). a < 7"
    by simp
  have c: "fst (Copy (TagRef 0 (Some 1) ''p'' (Some 4)
                  [TextRef 2 (Some 3) ''hi'', ClassRef 5 (Some 6) ''c'']) 7)
       = TagRef 8 (Some 7) ''p'' (Some 14)
           [TextRef 10 (Some 9) ''hi'', ClassRef 13 (Some 12) ''c'']"
    by (simp add: new_def make_bytes_def)
  have s: "storage (TagRef 0 (Some 1) ''p'' (Some 4)
                        [TextRef 2 (Some 3) ''hi'', ClassRef 5 (Some 6) ''c'']) = {0, 1, 2, 3, 4, 5, 6}"
    by auto
  from Copy_deep_clone [OF a] c s show ?thesis
    by simp
qed

section \<open>Properties of the scanner\<close>

subsection \<open>Strings\<close>






lemma slice_one:
  "s < length xs \<Longrightarrow> take (Suc 0) (drop s xs) = [xs ! s]"
  by (simp add: Cons_nth_drop_Suc [symmetric])

subsection \<open>Single steps of \<open>nextItem\<close>\<close>

lemma nextItem_buffered:
  "items l = i # rest \<Longrightarrow> nextItem l = Some (Inr (i, l\<lparr>items := rest\<rparr>))"
  by (subst nextItem.simps) simp

lemma nextItem_run:
  "items l = [] \<Longrightarrow> state l = Some f \<Longrightarrow> call f l = Some (Inr (st, l1))
     \<Longrightarrow> nextItem l = nextItem (l1\<lparr>state := st\<rparr>)"
  by (subst nextItem.simps) simp


lemma next_keeps:
  "items (snd (next l)) = items l \<and> start (snd (next l)) = start l
     \<and> input (snd (next l)) = input l \<and> state (snd (next l)) = state l"
  by (simp add: next_def split: prod.splits)

subsection \<open>The loop of \<open>lexAttr\<close> at the end of the input\<close>

lemma peek_eof: "length (input l) \<le> pos l \<Longrightarrow> peek l = (eof, l\<lparr>width := 0\<rparr>)"
  by (simp add: peek_def next_def backup_def)

lemma next_eof: "length (input l) \<le> pos l \<Longrightarrow> next l = (eof, l\<lparr>width := 0\<rparr>)"
  by (simp add: next_def)

lemma lexAttr_Loop_returns_before_eof:
  assumes "lexAttr_Loop l = Some y"
  shows "pos l < length (input l)"
proof (rule lexAttr_Loop.raw_induct [where P = "\<lambda>l y. pos l < length (input l)", OF _ assms])
  fix f :: "lexer \<Rightarrow> (panic + lexer) option" and l y
  assume IH: "\<And>x y. f x = Some y \<Longrightarrow> pos x < length (input x)"
    and body: "(case peek l of
        (r, l0) \<Rightarrow>
          if r = rune CHR '')'' then Some (Inr l0)
          else if r = rune CHR '',''
               then case emit itemAttr l0 of Inl e \<Rightarrow> Some (Inl e)
                    | Inr l1 \<Rightarrow> f (ignore (snd (next l1)))
               else f (snd (next l0))) = Some y"
  show "pos l < length (input l)"
  proof (rule ccontr)
    assume "\<not> pos l < length (input l)"
    then have e: "length (input l) \<le> pos l" by simp
    from body have "f (l\<lparr>width := 0\<rparr>) = Some y"
      by (simp add: peek_eof [OF e] next_eof e eof_def rune_def)
    from IH [OF this] e show False by simp
  qed
qed

lemma lexAttr_Loop_eof: "length (input l) \<le> pos l \<Longrightarrow> lexAttr_Loop l = None"
  using lexAttr_Loop_returns_before_eof [of l] by (cases "lexAttr_Loop l") auto

lemma nextItem_lexAttr_eof:
  "state l = Some LexAttr \<Longrightarrow> items l = [] \<Longrightarrow> length (input l) \<le> pos l \<Longrightarrow> nextItem l = None"
  by (subst nextItem.simps) (simp add: lexAttr_def lexAttr_Loop_eof)


subsection \<open>Runs of the scanner\<close>

text \<open>
  Claim C1 says that every input yields a finite sequence of tokens that ends with
  \<open>EndOfInput\<close> or \<open>Error\<close>, also when an attribute list is never closed. The
  scanner does not do so on the input \<open>a(\<close>: it yields the tag \<open>a\<close>, and the call of
  \<open>nextItem\<close> after that never returns, since the loop of \<open>lexAttr\<close> has no case for
  the end of the input; so the loop of the test never ends either.
\<close>

theorem lexAttr_unclosed_never_returns:
  "nextItem (lex ''name'' ''a('' [] []) =
     Some (Inr (\<lparr>typ = itemTag, val = ''a''\<rparr>,
        \<lparr>name = ''name'', input = ''a('', leftDelim = ''{{'', rightDelim = ''}}'',
           state = Some LexAttr, pos = 2, start = 2, width = 1, items = []\<rparr>))
   \<and> nextItem \<lparr>name = ''name'', input = ''a('', leftDelim = ''{{'', rightDelim = ''}}'',
           state = Some LexAttr, pos = 2, start = 2, width = 1, items = []\<rparr> = None
   \<and> TestJade_loop (lex ''name'' ''a('' [] []) [] = None"
proof -
  have first: "nextItem (lex ''name'' ''a('' [] []) =
     Some (Inr (\<lparr>typ = itemTag, val = ''a''\<rparr>,
        \<lparr>name = ''name'', input = ''a('', leftDelim = ''{{'', rightDelim = ''}}'',
           state = Some LexAttr, pos = 2, start = 2, width = 1, items = []\<rparr>))"
    by code_simp
  have second: "nextItem \<lparr>name = ''name'', input = ''a('', leftDelim = ''{{'', rightDelim = ''}}'',
           state = Some LexAttr, pos = 2, start = 2, width = 1, items = []\<rparr> = None"
    by (rule nextItem_lexAttr_eof) simp_all
  have "TestJade_loop (lex ''name'' ''a('' [] []) [] =
          TestJade_loop \<lparr>name = ''name'', input = ''a('', leftDelim = ''{{'', rightDelim = ''}}'',
           state = Some LexAttr, pos = 2, start = 2, width = 1, items = []\<rparr>
            [\<lparr>typ = itemTag, val = ''a''\<rparr>]"
    by (subst TestJade_loop.simps) (simp only: first, simp)
  also have "\<dots> = None"
    by (subst TestJade_loop.simps) (simp only: second, simp)
  finally show ?thesis
    using first second by simp
qed

text \<open>
  The loop of \<open>lexAttr\<close> sends one item for every comma and \<open>lexAttr\<close> one more after
  it, without returning to \<open>nextItem\<close> in between, and the channel holds two: with three
  attributes the third send blocks. With two attributes the scanner gets through the
  list, and \<open>lexText\<close> then indexes the input at its length.
\<close>

lemma lexAttr_third_item_blocks:
  "TestJade_loop (lex ''name'' ''a(b,c,d)'' [] []) [] =
     Some ([\<lparr>typ = itemTag, val = ''a''\<rparr>], Some Deadlock)
   \<and> TestJade_loop (lex ''name'' ''a(b,c)'' [] []) [] =
     Some ([\<lparr>typ = itemTag, val = ''a''\<rparr>, \<lparr>typ = itemAttr, val = ''b''\<rparr>,
            \<lparr>typ = itemAttr, val = ''c''\<rparr>], Some IndexOutOfRange)"
  by code_simp

text \<open>
  Claim C2 says that the scanner never reads the input out of bounds. It does on an input
  that ends with a newline (\<open>lexNewLine\<close> indexes the input at its length after the
  last newline), on an input of whitespace only (\<open>lexIndent\<close> does the same after the
  last indent), and on a doctype marker followed at once by the newline (\<open>lexDocType\<close>
  moves \<open>start\<close> past \<open>pos\<close>, and the slice expression of \<open>emit\<close> is out of range).
\<close>

theorem scanner_reads_out_of_bounds:
  "TestJade_loop (lex ''name'' (''a'' @ [CHR 0x0A]) [] []) [] =
     Some ([\<lparr>typ = itemTag, val = ''a''\<rparr>, \<lparr>typ = itemEndl, val = [CHR 0x0A]\<rparr>],
           Some IndexOutOfRange)
   \<and> TestJade_loop (lex ''name'' '' '' [] []) [] =
     Some ([\<lparr>typ = itemIdentSpace, val = []\<rparr>, \<lparr>typ = itemIdentSpace, val = '' ''\<rparr>],
           Some IndexOutOfRange)
   \<and> TestJade_loop (lex ''name'' (''doctype'' @ [CHR 0x0A]) [] []) [] =
     Some ([], Some SliceBoundsOutOfRange)"
  by code_simp

text \<open>
  Claim C7 says that a line with \<open>n\<close> leading whitespace characters yields \<open>n\<close> indent
  tokens, each with that one character as its text, and a run of \<open>k\<close> newlines \<open>k\<close>
  tokens. On the first line of the input the scanner yields one token more, with empty
  text: two indent tokens for the one space of \<open> a\<close>, three newline tokens for the two
  newlines at the start of an input. On a later line it yields one token for each
  character, as the second input shows.
\<close>

theorem first_line_indent_extra_token:
  "TestJade_loop (lex ''name'' '' a'' [] []) [] =
     Some ([\<lparr>typ = itemIdentSpace, val = []\<rparr>, \<lparr>typ = itemIdentSpace, val = '' ''\<rparr>,
            \<lparr>typ = itemTag, val = ''a''\<rparr>, \<lparr>typ = itemEOF, val = []\<rparr>], None)
   \<and> TestJade_loop (lex ''name'' (''a'' @ [CHR 0x0A] @ '' b'') [] []) [] =
     Some ([\<lparr>typ = itemTag, val = ''a''\<rparr>, \<lparr>typ = itemEndl, val = [CHR 0x0A]\<rparr>,
            \<lparr>typ = itemIdentSpace, val = '' ''\<rparr>, \<lparr>typ = itemTag, val = ''b''\<rparr>,
            \<lparr>typ = itemEOF, val = []\<rparr>], None)
   \<and> TestJade_loop (lex ''name'' ([CHR 0x0A, CHR 0x0A] @ ''a'') [] []) [] =
     Some ([\<lparr>typ = itemEndl, val = []\<rparr>, \<lparr>typ = itemEndl, val = [CHR 0x0A]\<rparr>,
            \<lparr>typ = itemEndl, val = [CHR 0x0A]\<rparr>, \<lparr>typ = itemTag, val = ''a''\<rparr>,
            \<lparr>typ = itemEOF, val = []\<rparr>], None)"
  by code_simp

text \<open>
  Claim C8 says that on a line whose first character after the indent is \<open>|\<close> the marker
  is discarded and the rest of the line is one text token without it. On the first line
  of the input the marker stays in the text: \<open>|foo\<close> yields the text \<open>|foo\<close>. On a
  later line it is discarded, as the second input shows.
\<close>

theorem first_line_pipe_marker_kept:
  "TestJade_loop (lex ''name'' ''|foo'' [] []) [] =
     Some ([\<lparr>typ = itemText, val = ''|foo''\<rparr>, \<lparr>typ = itemEOF, val = []\<rparr>], None)
   \<and> TestJade_loop (lex ''name'' (''a'' @ [CHR 0x0A] @ ''|foo'') [] []) [] =
     Some ([\<lparr>typ = itemTag, val = ''a''\<rparr>, \<lparr>typ = itemEndl, val = [CHR 0x0A]\<rparr>,
            \<lparr>typ = itemText, val = ''foo''\<rparr>, \<lparr>typ = itemEOF, val = []\<rparr>], None)"
  by code_simp

subsection \<open>Later lines\<close>

text \<open>
  After a newline the scanner is one character ahead: \<open>pos\<close> is one past \<open>start\<close>
  whenever \<open>lexNewLine\<close>, \<open>lexIndent\<close> and \<open>lexTag\<close> look at the character at
  \<open>start\<close>. In that situation an indent character yields one indent token whose text is
  that character, a newline character yields one newline token whose text is that
  character, and \<open>start\<close> moves on by one; and at the marker of a literal text line
  \<open>lexTag\<close> moves \<open>start\<close> to \<open>pos\<close>, past the marker. At the start of the input
  \<open>pos\<close> equals \<open>start\<close>, which is where the first line differs.
\<close>

lemma lexIndent_later_line:
  assumes "state l = Some LexIndent" "items l = []" "start l < length (input l)"
    "pos l = Suc (start l)"
    "input l ! start l = CHR '' '' \<or> input l ! start l = CHR 0x09"
  shows "\<exists>l'. nextItem l =
            Some (Inr (\<lparr>typ = (if input l ! start l = CHR 0x09 then itemIdentTab
                                else itemIdentSpace),
                        val = [input l ! start l]\<rparr>, l'))
          \<and> state l' = Some LexIndent \<and> items l' = [] \<and> input l' = input l
          \<and> start l' = Suc (start l)"
proof -
  let ?t = "if input l ! start l = CHR 0x09 then itemIdentTab else itemIdentSpace"
  let ?i = "\<lparr>typ = ?t, val = [input l ! start l]\<rparr>"
  let ?l1 = "l\<lparr>items := [?i], start := Suc (start l)\<rparr>"
  from assms have e: "emit ?t l = Inr ?l1"
    by (simp add: emit_def send_def slice_one)
  from assms e have "lexIndent l = Inr (Some LexIndent, snd (next ?l1))"
    by (auto simp: lexIndent_def input_at_start_def)
  with assms have "nextItem l = nextItem ((snd (next ?l1))\<lparr>state := Some LexIndent\<rparr>)"
    by (simp add: nextItem_run [where f = LexIndent])
  also have "\<dots> = Some (Inr (?i, (snd (next ?l1))\<lparr>state := Some LexIndent, items := []\<rparr>))"
    by (subst nextItem_buffered [where i = ?i and rest = "[]"]) (simp_all add: next_keeps)
  finally show ?thesis
    by (simp add: next_keeps)
qed

lemma lexNewLine_later_line:
  assumes "state l = Some LexNewLine" "items l = []" "start l < length (input l)"
    "pos l = Suc (start l)"
    "input l ! start l = CHR 0x0A \<or> input l ! start l = CHR 0x0D"
  shows "\<exists>l'. nextItem l = Some (Inr (\<lparr>typ = itemEndl, val = [input l ! start l]\<rparr>, l'))
          \<and> state l' = Some LexNewLine \<and> items l' = [] \<and> input l' = input l
          \<and> start l' = Suc (start l)"
proof -
  let ?i = "\<lparr>typ = itemEndl, val = [input l ! start l]\<rparr>"
  let ?l1 = "l\<lparr>items := [?i], start := Suc (start l)\<rparr>"
  from assms have e: "emit itemEndl l = Inr ?l1"
    by (simp add: emit_def send_def slice_one)
  from assms e have "lexNewLine l = Inr (Some LexNewLine, snd (next ?l1))"
    by (auto simp: lexNewLine_def input_at_start_def)
  with assms have "nextItem l = nextItem ((snd (next ?l1))\<lparr>state := Some LexNewLine\<rparr>)"
    by (simp add: nextItem_run [where f = LexNewLine])
  also have "\<dots> = Some (Inr (?i, (snd (next ?l1))\<lparr>state := Some LexNewLine, items := []\<rparr>))"
    by (subst nextItem_buffered [where i = ?i and rest = "[]"]) (simp_all add: next_keeps)
  finally show ?thesis
    by (simp add: next_keeps)
qed

lemma lexTag_pipe_marker:
  assumes "start l < length (input l)" "input l ! start l = CHR ''|''"
  shows "lexTag l = Inr (Some LexText, l\<lparr>start := pos l\<rparr>)"
  using assms by (simp add: lexTag_def input_at_start_def ignore_def)

subsection \<open>An unclosed doctype\<close>















end
